theory Spec2Isabelle
  imports Complex_Main "HOL-Library.Multiset"
begin

section \<open>UI region detection (detect\_ui.py): data model\<close>

text \<open>
  A region is the Python dict with the keys \<open>x\<close>, \<open>y\<close>, \<open>width\<close>, \<open>height\<close>
  (the fields \<open>box_x\<close>, \<open>box_y\<close>, \<open>width\<close>, \<open>height\<close>). The values are integers:
  Python integers where they come from \<open>cv2.boundingRect\<close>, 32-bit numpy integers where
  they come from the array of \<open>cv2.HoughLinesP\<close>. They are pixel positions and sizes, far
  from the range where 32-bit arithmetic wraps, so they are \<open>int\<close> here. A printed
  document is the list itself; whether \<open>json.dumps\<close> can render it is a parameter of
  the script below.
  The exceptions the model follows are a division by zero and whatever the text
  extraction, \<open>json.dumps\<close> or \<open>cv2.imwrite\<close> raises (a subclass of \<open>Exception\<close>).
\<close>

record box =
  box_x :: int
  box_y :: int
  width :: int
  height :: int

datatype py_error = ZeroDivisionError | Exception string

text \<open>
  Python's true division \<open>a / b\<close>. The quotient is a float in the script; it is the
  exact rational here. Every quotient of the script is only compared with a constant
  (\<open>0.5\<close>, \<open>0.7\<close>, \<open>10\<close>, \<open>15\<close>). For integer operands below \<open>2^49\<close>, as pixel counts
  are, an exact quotient that differs from the constant differs from it by more than
  the rounding of the division and of the constant, so the float comparison and the
  exact one agree.
\<close>

definition truediv :: "rat \<Rightarrow> rat \<Rightarrow> py_error + rat" where
  "truediv a b = (if b = 0 then Inl ZeroDivisionError else Inr (a / b))"

section \<open>Candidate generators\<close>

text \<open>
  The generators call OpenCV for everything that looks at pixels. A contour is modelled
  by what the script asks the library about it: \<open>cv2.contourArea(contour)\<close> (a float, a
  multiple of one half), the number of vertices of
  \<open>cv2.approxPolyDP(contour, 0.02 * cv2.arcLength(contour, True), True)\<close>, the bounding
  rectangle \<open>(x, y, w, h)\<close> of that polygon, and the bounding rectangle of the contour.
  An image is modelled by what the library returns for it: its shape, the contours found
  after each preprocessing chain, the Hough line segments, and the crop
  \<open>image[y:y+h, x:x+w]\<close> of a region.
\<close>

record contour =
  contourArea :: rat
  approx_len :: nat
  approx_rect :: "int \<times> int \<times> int \<times> int"
  boundingRect :: "int \<times> int \<times> int \<times> int"

record 'roi raster =
  shape :: "int \<times> int"
  canny_contours :: "int \<times> int \<Rightarrow> contour list"
  morph_contours :: "int \<Rightarrow> contour list"
  adaptive_contours :: "contour list"
  inrange_contours :: "int list \<times> int list \<Rightarrow> contour list"
  hough_lines :: "(int \<times> int \<times> int \<times> int) list option"
  crop :: "box \<Rightarrow> 'roi"

definition mk_box :: "int \<times> int \<times> int \<times> int \<Rightarrow> box" where
  "mk_box r = (case r of (x, y, w, h) \<Rightarrow> \<lparr>box_x = x, box_y = y, width = w, height = h\<rparr>)"

subsection \<open>Method 1: detect\_edges\_multi\_threshold\<close>

text \<open>
  The two nested \<open>if\<close>s of the loop body as one test: does the contour add a box?
  The conjunction \<open>w > 30 and h > 30 and w/h < 10 and h/w < 10\<close> is evaluated left to
  right, so a quotient is computed only after both sizes were found to exceed 30.
\<close>

definition edges_accept :: "contour \<Rightarrow> py_error + bool" where
  "edges_accept c =
    (if contourArea c > 500 \<and> approx_len c \<ge> 4 then
       (case approx_rect c of (x, y, w, h) \<Rightarrow>
          if \<not> (w > 30) then Inr False
          else if \<not> (h > 30) then Inr False
          else (case truediv (of_int w) (of_int h) of
                  Inl e \<Rightarrow> Inl e
                | Inr r1 \<Rightarrow>
                    if \<not> (r1 < 10) then Inr False
                    else (case truediv (of_int h) (of_int w) of
                            Inl e \<Rightarrow> Inl e
                          | Inr r2 \<Rightarrow> Inr (r2 < 10))))
     else Inr False)"

fun edges_contour_loop :: "contour list \<Rightarrow> box list \<Rightarrow> py_error + box list" where
  "edges_contour_loop [] boxes = Inr boxes"
| "edges_contour_loop (c # contours) boxes =
    (case edges_accept c of
       Inl e \<Rightarrow> Inl e
     | Inr ok \<Rightarrow>
         edges_contour_loop contours (if ok then boxes @ [mk_box (approx_rect c)] else boxes))"

fun edges_threshold_loop ::
  "'roi raster \<Rightarrow> (int \<times> int) list \<Rightarrow> box list \<Rightarrow> py_error + box list" where
  "edges_threshold_loop gray [] boxes = Inr boxes"
| "edges_threshold_loop gray (low_high # thresholds) boxes =
    (case edges_contour_loop (canny_contours gray low_high) boxes of
       Inl e \<Rightarrow> Inl e
     | Inr boxes' \<Rightarrow> edges_threshold_loop gray thresholds boxes')"

definition detect_edges_multi_threshold :: "'roi raster \<Rightarrow> py_error + box list" where
  "detect_edges_multi_threshold gray =
     edges_threshold_loop gray [(30, 100), (50, 150), (70, 200)] []"

subsection \<open>Method 2: detect\_rectangular\_regions\<close>

text \<open>The quotient \<open>contour_area / bbox_area\<close> is not guarded; \<open>0.7\<close> is \<open>7/10\<close> here.\<close>

fun rect_contour_loop :: "contour list \<Rightarrow> box list \<Rightarrow> py_error + box list" where
  "rect_contour_loop [] boxes = Inr boxes"
| "rect_contour_loop (c # contours) boxes =
    (if contourArea c > 1000 then
       (case boundingRect c of (x, y, w, h) \<Rightarrow>
          (case truediv (contourArea c) (of_int (w * h)) of
             Inl e \<Rightarrow> Inl e
           | Inr q \<Rightarrow>
               rect_contour_loop contours
                 (if q > 7 / 10 then boxes @ [mk_box (x, y, w, h)] else boxes)))
     else rect_contour_loop contours boxes)"

fun rect_size_loop :: "'roi raster \<Rightarrow> int list \<Rightarrow> box list \<Rightarrow> py_error + box list" where
  "rect_size_loop gray [] boxes = Inr boxes"
| "rect_size_loop gray (ksize # sizes) boxes =
    (case rect_contour_loop (morph_contours gray ksize) boxes of
       Inl e \<Rightarrow> Inl e
     | Inr boxes' \<Rightarrow> rect_size_loop gray sizes boxes')"

definition detect_rectangular_regions :: "'roi raster \<Rightarrow> py_error + box list" where
  "detect_rectangular_regions gray = rect_size_loop gray [3, 5, 7] []"

subsection \<open>Method 3: detect\_adaptive\_threshold\<close>

fun adaptive_contour_loop :: "contour list \<Rightarrow> box list \<Rightarrow> box list" where
  "adaptive_contour_loop [] boxes = boxes"
| "adaptive_contour_loop (c # contours) boxes =
    (if contourArea c > 500 then
       (case boundingRect c of (x, y, w, h) \<Rightarrow>
          adaptive_contour_loop contours
            (if w > 20 \<and> h > 20 then boxes @ [mk_box (x, y, w, h)] else boxes))
     else adaptive_contour_loop contours boxes)"

definition detect_adaptive_threshold :: "'roi raster \<Rightarrow> box list" where
  "detect_adaptive_threshold gray = adaptive_contour_loop (adaptive_contours gray) []"

subsection \<open>Method 4: detect\_color\_regions\<close>

definition color_ranges :: "(int list \<times> int list) list" where
  "color_ranges =
    [([100, 50, 50], [130, 255, 255]),
     ([40, 50, 50], [80, 255, 255]),
     ([0, 50, 50], [20, 255, 255]),
     ([0, 0, 200], [180, 30, 255])]"

fun color_contour_loop :: "contour list \<Rightarrow> box list \<Rightarrow> box list" where
  "color_contour_loop [] boxes = boxes"
| "color_contour_loop (c # contours) boxes =
    color_contour_loop contours
      (if contourArea c > 1000 then boxes @ [mk_box (boundingRect c)] else boxes)"

fun color_range_loop :: "'roi raster \<Rightarrow> (int list \<times> int list) list \<Rightarrow> box list \<Rightarrow> box list" where
  "color_range_loop hsv [] boxes = boxes"
| "color_range_loop hsv (lower_upper # ranges) boxes =
    color_range_loop hsv ranges (color_contour_loop (inrange_contours hsv lower_upper) boxes)"

definition detect_color_regions :: "'roi raster \<Rightarrow> box list" where
  "detect_color_regions hsv = color_range_loop hsv color_ranges []"

subsection \<open>Method 5: detect\_lines\_boxes\<close>

text \<open>
  A segment is \<open>(x1, y1, x2, y2)\<close>, the row \<open>line[0]\<close> of the array that
  \<open>cv2.HoughLinesP\<close> returns; the library returns \<open>None\<close> when it finds no segment. The
  end points are pixel positions of the image, far from the range where the 32-bit
  integers of the array would wrap, so they are \<open>int\<close> here. The first loop sorts the
  segments into horizontal \<open>(min x, max x, y1)\<close> and vertical \<open>(min y, max y, x1)\<close> ones.
\<close>

fun classify_lines ::
  "(int \<times> int \<times> int \<times> int) list \<Rightarrow> (int \<times> int \<times> int) list \<Rightarrow> (int \<times> int \<times> int) list
     \<Rightarrow> (int \<times> int \<times> int) list \<times> (int \<times> int \<times> int) list" where
  "classify_lines [] horizontal_lines vertical_lines = (horizontal_lines, vertical_lines)"
| "classify_lines ((x1, y1, x2, y2) # lines) horizontal_lines vertical_lines =
    (if \<bar>y2 - y1\<bar> < 10 then
       classify_lines lines (horizontal_lines @ [(min x1 x2, max x1 x2, y1)]) vertical_lines
     else if \<bar>x2 - x1\<bar> < 10 then
       classify_lines lines horizontal_lines (vertical_lines @ [(min y1 y2, max y1 y2, x1)])
     else classify_lines lines horizontal_lines vertical_lines)"

text \<open>The inner loop \<open>for v_line in vertical_lines\<close> for one horizontal segment.\<close>

fun lines_v_loop ::
  "int \<times> int \<times> int \<Rightarrow> (int \<times> int \<times> int) list \<Rightarrow> box list \<Rightarrow> box list" where
  "lines_v_loop h_line [] boxes = boxes"
| "lines_v_loop h_line (v_line # vertical_lines) boxes =
    (case h_line of (h0, h1, h2) \<Rightarrow>
     case v_line of (v0, v1, v2) \<Rightarrow>
       if \<bar>h2 - v0\<bar> < 20 \<or> \<bar>h2 - v1\<bar> < 20 then
         (let x = v2; y = h2; w = \<bar>h1 - h0\<bar>; h = \<bar>v1 - v0\<bar> in
          lines_v_loop h_line vertical_lines
            (if w > 30 \<and> h > 30 then boxes @ [mk_box (x, y, w, h)] else boxes))
       else lines_v_loop h_line vertical_lines boxes)"

fun lines_h_loop ::
  "(int \<times> int \<times> int) list \<Rightarrow> (int \<times> int \<times> int) list \<Rightarrow> box list \<Rightarrow> box list" where
  "lines_h_loop [] vertical_lines boxes = boxes"
| "lines_h_loop (h_line # horizontal_lines) vertical_lines boxes =
    lines_h_loop horizontal_lines vertical_lines (lines_v_loop h_line vertical_lines boxes)"

definition detect_lines_boxes :: "'roi raster \<Rightarrow> box list" where
  "detect_lines_boxes gray =
    (case hough_lines gray of
       None \<Rightarrow> []
     | Some lines \<Rightarrow>
         (case classify_lines lines [] [] of
            (horizontal_lines, vertical_lines) \<Rightarrow>
              lines_h_loop horizontal_lines vertical_lines []))"

subsection \<open>The pool\<close>

text \<open>
  \<open>all_boxes\<close> is extended with the result of each method in turn; an exception of a
  method leaves the script at once.
\<close>

definition all_boxes :: "'roi raster \<Rightarrow> py_error + box list" where
  "all_boxes img =
    (case detect_edges_multi_threshold img of
       Inl e \<Rightarrow> Inl e
     | Inr b1 \<Rightarrow>
         (case detect_rectangular_regions img of
            Inl e \<Rightarrow> Inl e
          | Inr b2 \<Rightarrow>
              Inr (b1 @ b2 @ detect_adaptive_threshold img @ detect_color_regions img
                   @ detect_lines_boxes img)))"

section \<open>Deduplication: remove\_overlapping\_boxes\<close>

text \<open>The sort key \<open>lambda x: x['width'] * x['height']\<close>.\<close>

definition area :: "box \<Rightarrow> int" where
  "area b = width b * height b"

text \<open>
  \<open>sorted(boxes, key=..., reverse=True)\<close>: CPython reverses the list, sorts it stably in
  ascending order of the key, and reverses the result, so that elements with equal keys
  keep their input order. \<open>sort_key\<close> is the stable insertion sort of the list library.
\<close>

definition sorted_reverse :: "('a \<Rightarrow> int) \<Rightarrow> 'a list \<Rightarrow> 'a list" where
  "sorted_reverse key xs = rev (sort_key key (rev xs))"

text \<open>The nested function \<open>calculate_overlap\<close>; it returns the integer 0 or a quotient.\<close>

definition calculate_overlap :: "box \<Rightarrow> box \<Rightarrow> py_error + rat" where
  "calculate_overlap box1 box2 =
    (let x1 = box_x box1; y1 = box_y box1; w1 = width box1; h1 = height box1;
         x2 = box_x box2; y2 = box_y box2; w2 = width box2; h2 = height box2;
         left = max x1 x2;
         top = max y1 y2;
         right = min (x1 + w1) (x2 + w2);
         bottom = min (y1 + h1) (y2 + h2)
     in if left < right \<and> top < bottom then
          (let intersection = (right - left) * (bottom - top);
               area1 = w1 * h1;
               area2 = w2 * h2;
               union = area1 + area2 - intersection
           in truediv (of_int intersection) (of_int union))
        else Inr 0)"

text \<open>
  The inner loop over \<open>filtered_boxes\<close>, with its \<open>break\<close>: the value of
  \<open>is_duplicate\<close> when the loop ends.
\<close>

fun is_duplicate :: "rat \<Rightarrow> box \<Rightarrow> box list \<Rightarrow> py_error + bool" where
  "is_duplicate overlap_threshold b [] = Inr False"
| "is_duplicate overlap_threshold b (existing_box # rest) =
    (case calculate_overlap b existing_box of
       Inl e \<Rightarrow> Inl e
     | Inr ov \<Rightarrow>
         if ov > overlap_threshold then Inr True
         else is_duplicate overlap_threshold b rest)"

text \<open>The outer loop; the second list is \<open>filtered_boxes\<close> so far.\<close>

fun dedup_loop :: "rat \<Rightarrow> box list \<Rightarrow> box list \<Rightarrow> py_error + box list" where
  "dedup_loop overlap_threshold [] filtered_boxes = Inr filtered_boxes"
| "dedup_loop overlap_threshold (b # boxes) filtered_boxes =
    (case is_duplicate overlap_threshold b filtered_boxes of
       Inl e \<Rightarrow> Inl e
     | Inr dup \<Rightarrow>
         dedup_loop overlap_threshold boxes
           (if \<not> dup then filtered_boxes @ [b] else filtered_boxes))"

definition remove_overlapping_boxes :: "box list \<Rightarrow> rat \<Rightarrow> py_error + box list" where
  "remove_overlapping_boxes boxes overlap_threshold =
    (if boxes = [] then Inr []
     else dedup_loop overlap_threshold (sorted_reverse area boxes) [])"

section \<open>Plausibility filter: filter\_ui\_boxes\<close>

text \<open>
  The condition of the \<open>if\<close>, evaluated left to right as Python's \<open>and\<close> does: a
  quotient is computed only when everything before it held. \<open>image_shape\<close> is
  \<open>(image.shape[0], image.shape[1])\<close>, the rows and the columns of the image. The
  float \<open>0.9\<close> is the rational \<open>9/10\<close> here: for \<open>n\<close> below \<open>2^49\<close> the float product
  \<open>n * 0.9\<close> is the integer \<open>9n/10\<close> when that is an integer and lies strictly between
  the same two integers as \<open>9n/10\<close> otherwise, so its comparison with the integer \<open>w\<close>
  has the same result.
\<close>

definition ui_box_ok :: "int \<times> int \<Rightarrow> box \<Rightarrow> py_error + bool" where
  "ui_box_ok image_shape b =
    (let w = width b; h = height b in
     if \<not> (w \<ge> 50) then Inr False
     else if \<not> (h \<ge> 30) then Inr False
     else if \<not> (of_int w \<le> of_int (snd image_shape) * (9 / 10 :: rat)) then Inr False
     else if \<not> (of_int h \<le> of_int (fst image_shape) * (9 / 10 :: rat)) then Inr False
     else (case truediv (of_int w) (of_int h) of
             Inl e \<Rightarrow> Inl e
           | Inr r1 \<Rightarrow>
               if \<not> (r1 \<le> 15) then Inr False
               else (case truediv (of_int h) (of_int w) of
                       Inl e \<Rightarrow> Inl e
                     | Inr r2 \<Rightarrow> Inr (r2 \<le> 15))))"

fun filter_loop :: "int \<times> int \<Rightarrow> box list \<Rightarrow> box list \<Rightarrow> py_error + box list" where
  "filter_loop image_shape [] filtered = Inr filtered"
| "filter_loop image_shape (b # boxes) filtered =
    (case ui_box_ok image_shape b of
       Inl e \<Rightarrow> Inl e
     | Inr ok \<Rightarrow> filter_loop image_shape boxes (if ok then filtered @ [b] else filtered))"

definition filter_ui_boxes :: "int \<times> int \<Rightarrow> box list \<Rightarrow> py_error + box list" where
  "filter_ui_boxes image_shape boxes = filter_loop image_shape boxes []"

text \<open>
  The two statements of the script that produce \<open>final_boxes\<close> from the pool:
  \<open>final_boxes = remove_overlapping_boxes(all_boxes)\<close> with the default threshold, then
  \<open>final_boxes = filter_ui_boxes(final_boxes)\<close>.
\<close>

definition final_boxes :: "int \<times> int \<Rightarrow> box list \<Rightarrow> py_error + box list" where
  "final_boxes image_shape pool =
    (case remove_overlapping_boxes pool (1 / 2) of
       Inl e \<Rightarrow> Inl e
     | Inr deduplicated \<Rightarrow> filter_ui_boxes image_shape deduplicated)"

section \<open>Enrichment: labels, colour fingerprint, text\<close>

text \<open>
  \<open>str(n)\<close> of a non-negative Python integer: its decimal digits, most significant
  first, with no leading zero.
\<close>

definition digit_char :: "nat \<Rightarrow> char" where
  "digit_char d = ''0123456789'' ! d"

fun str_nat :: "nat \<Rightarrow> string" where
  "str_nat n = (if n < 10 then [digit_char n] else str_nat (n div 10) @ [digit_char (n mod 10)])"

declare str_nat.simps [simp del]

text \<open>
  The recognised text is a Python \<open>str\<close>: here the list of its code points.
  \<open>str.strip()\<close> drops the white space at both ends; the white space characters of
  Python are the code points 9 to 13, 28 to 32, 133 (U+0085), 160 (U+00A0), 5760
  (U+1680), 8192 to 8202 (U+2000 to U+200A), 8232, 8233 (U+2028, U+2029), 8239
  (U+202F), 8287 (U+205F) and 12288 (U+3000).
\<close>

definition isspace :: "nat \<Rightarrow> bool" where
  "isspace c \<longleftrightarrow>
     (9 \<le> c \<and> c \<le> 13) \<or> (28 \<le> c \<and> c \<le> 32) \<or> c = 133 \<or> c = 160 \<or> c = 5760 \<or>
     (8192 \<le> c \<and> c \<le> 8202) \<or> c = 8232 \<or> c = 8233 \<or> c = 8239 \<or> c = 8287 \<or> c = 12288"

definition strip :: "nat list \<Rightarrow> nat list" where
  "strip s = rev (dropWhile isspace (rev (dropWhile isspace s)))"

text \<open>
  \<open>extract_text_from_roi\<close>: the colour conversion and \<open>pytesseract.image_to_string\<close> are
  one external call, which returns the recognised text or raises. The call is not a
  function of the crop alone (it runs another program), so the script's \<open>i\<close>-th call
  is \<open>image_to_string i\<close>.
\<close>

definition extract_text_from_roi ::
  "('roi \<Rightarrow> py_error + nat list) \<Rightarrow> 'roi \<Rightarrow> py_error + nat list" where
  "extract_text_from_roi image_to_string r =
    (case image_to_string r of Inl e \<Rightarrow> Inl e | Inr t \<Rightarrow> Inr (strip t))"

text \<open>
  A labelled region: the dict of the region with the keys \<open>label\<close>,
  \<open>color_fingerprint\<close> and \<open>text\<close> added (the last one is the field \<open>box_text\<close>).
\<close>

record 'fp labeled_box = box +
  label :: string
  color_fingerprint :: "'fp"
  box_text :: "nat list"

text \<open>
  One pass of the loop body for index \<open>i\<close>: the copy of the box, its label \<open>f"UI{i+1}"\<close>,
  the fingerprint of the crop and the text, which is empty when the extraction raised
  (\<open>except Exception\<close>). \<open>get_color_fingerprint\<close> (the mean of the crop, rounded) is a
  parameter.
\<close>

definition label_box ::
  "('roi \<Rightarrow> 'fp) \<Rightarrow> (nat \<Rightarrow> 'roi \<Rightarrow> py_error + nat list) \<Rightarrow> 'roi raster \<Rightarrow> nat \<Rightarrow> box
     \<Rightarrow> 'fp labeled_box" where
  "label_box get_color_fingerprint image_to_string img i b =
    (let r = crop img b in
     \<lparr>box_x = box_x b, box_y = box_y b, width = width b, height = height b,
      label = ''UI'' @ str_nat (i + 1),
      color_fingerprint = get_color_fingerprint r,
      box_text = (case extract_text_from_roi (image_to_string i) r of
                Inl e \<Rightarrow> []
              | Inr t \<Rightarrow> t)\<rparr>)"

text \<open>The loop \<open>for i, box in enumerate(final_boxes)\<close>, appending to \<open>labeled_boxes\<close>.\<close>

fun label_loop ::
  "('roi \<Rightarrow> 'fp) \<Rightarrow> (nat \<Rightarrow> 'roi \<Rightarrow> py_error + nat list) \<Rightarrow> 'roi raster \<Rightarrow> nat \<Rightarrow> box list
     \<Rightarrow> 'fp labeled_box list \<Rightarrow> 'fp labeled_box list" where
  "label_loop get_color_fingerprint image_to_string img i [] labeled = labeled"
| "label_loop get_color_fingerprint image_to_string img i (b # boxes) labeled =
    label_loop get_color_fingerprint image_to_string img (Suc i) boxes
      (labeled @ [label_box get_color_fingerprint image_to_string img i b])"

definition labeled_boxes ::
  "('roi \<Rightarrow> 'fp) \<Rightarrow> (nat \<Rightarrow> 'roi \<Rightarrow> py_error + nat list) \<Rightarrow> 'roi raster \<Rightarrow> box list
     \<Rightarrow> 'fp labeled_box list" where
  "labeled_boxes get_color_fingerprint image_to_string img boxes =
     label_loop get_color_fingerprint image_to_string img 0 boxes []"

section \<open>The annotated image\<close>

text \<open>
  \<open>str.replace(old, new)\<close>: every occurrence of \<open>old\<close>, found from left to right
  without overlap, is replaced. For an empty \<open>old\<close>, \<open>new\<close> is put before every
  character and at the end.
\<close>

function replace_nonempty :: "'a list \<Rightarrow> 'a list \<Rightarrow> 'a list \<Rightarrow> 'a list" where
  "replace_nonempty old new [] = []"
| "replace_nonempty old new (c # s) =
    (if old \<noteq> [] \<and> take (length old) (c # s) = old
     then new @ replace_nonempty old new (drop (length old) (c # s))
     else c # replace_nonempty old new s)"
  by pat_completeness auto
termination
  by (relation "measure (\<lambda>(old, new, s). length s)") auto

definition str_replace :: "'a list \<Rightarrow> 'a list \<Rightarrow> 'a list \<Rightarrow> 'a list" where
  "str_replace s old new =
    (if old = [] then new @ concat (map (\<lambda>c. c # new) s) else replace_nonempty old new s)"

definition output_path :: "string \<Rightarrow> string" where
  "output_path image_path = str_replace image_path ''.png'' ''_annotated.png''"

text \<open>
  The drawing loop: region \<open>i\<close> is drawn as a rectangle in \<open>colors[i % len(colors)]\<close>
  with its label at \<open>(x, y - 10)\<close>. A drawing is the box, the label, the position of
  the label and the colour.
\<close>

definition colors :: "(int \<times> int \<times> int) list" where
  "colors = [(0, 255, 0), (255, 0, 0), (0, 0, 255), (255, 255, 0), (255, 0, 255)]"

fun draw_loop ::
  "nat \<Rightarrow> box list \<Rightarrow> (box \<times> string \<times> (int \<times> int) \<times> (int \<times> int \<times> int)) list
     \<Rightarrow> (box \<times> string \<times> (int \<times> int) \<times> (int \<times> int \<times> int)) list" where
  "draw_loop i [] drawn = drawn"
| "draw_loop i (b # boxes) drawn =
    draw_loop (Suc i) boxes
      (drawn @ [(b, ''UI'' @ str_nat (i + 1), (box_x b, box_y b - 10),
                 colors ! (i mod length colors))])"

section \<open>The script\<close>

text \<open>
  What a run leaves behind: the documents printed on the standard output (each
  \<open>print(json.dumps(...))\<close> prints one list), the exit status of the process, the
  exception of the traceback if one ended the run, and the images written.
\<close>

record 'fp run =
  stdout :: "'fp labeled_box list list"
  exit_status :: int
  uncaught :: "py_error option"
  written :: "(string \<times> (box \<times> string \<times> (int \<times> int) \<times> (int \<times> int \<times> int)) list) list"

text \<open>An exception that nothing catches: a traceback and the exit status 1.\<close>

definition raised :: "py_error \<Rightarrow> 'fp run" where
  "raised e = \<lparr>stdout = [], exit_status = 1, uncaught = Some e, written = []\<rparr>"

text \<open>
  The script from top to bottom. \<open>argv\<close> is \<open>sys.argv\<close> (the script's name first);
  \<open>imread\<close> is \<open>cv2.imread\<close>, which returns \<open>None\<close> for a file it cannot read or
  decode.

  \<open>json.dumps(labeled_boxes)\<close> stands outside every \<open>try\<close> and raises \<open>TypeError\<close> on a
  value it cannot serialise. The 32-bit numpy integers in the regions of
  \<open>detect_lines_boxes\<close> are such values, and \<open>int\<close> does not record which integers
  they are, so the exception that \<open>json.dumps\<close> raises on a list, if any, is the
  parameter \<open>json_error\<close>; when it raises, nothing is printed and the run ends with the
  traceback. \<open>json.dumps([])\<close> in the two guards is the string \<open>[]\<close> and cannot raise.

  \<open>cv2.imwrite\<close> is the last statement: it raises (no writer for the extension of the
  path), or returns \<open>False\<close> without writing (a missing directory), or writes the image
  and returns \<open>True\<close>; the script ignores the value it returns. It is the parameter
  \<open>imwrite\<close>, called with the path and the drawings on the image.
\<close>

definition main ::
  "(string \<Rightarrow> 'roi raster option) \<Rightarrow> ('roi \<Rightarrow> 'fp) \<Rightarrow> (nat \<Rightarrow> 'roi \<Rightarrow> py_error + nat list)
     \<Rightarrow> ('fp labeled_box list \<Rightarrow> py_error option)
     \<Rightarrow> (string \<Rightarrow> (box \<times> string \<times> (int \<times> int) \<times> (int \<times> int \<times> int)) list \<Rightarrow> py_error + bool)
     \<Rightarrow> string list \<Rightarrow> 'fp run" where
  "main imread get_color_fingerprint image_to_string json_error imwrite argv =
    (if length argv < 2 then
       \<lparr>stdout = [[]], exit_status = 0, uncaught = None, written = []\<rparr>
     else
       (let image_path = argv ! 1 in
        case imread image_path of
          None \<Rightarrow> \<lparr>stdout = [[]], exit_status = 1, uncaught = None, written = []\<rparr>
        | Some img \<Rightarrow>
            (case all_boxes img of
               Inl e \<Rightarrow> raised e
             | Inr pool \<Rightarrow>
                 (case final_boxes (shape img) pool of
                    Inl e \<Rightarrow> raised e
                  | Inr final \<Rightarrow>
                      (let labeled =
                             labeled_boxes get_color_fingerprint image_to_string img final
                       in case json_error labeled of
                            Some e \<Rightarrow> raised e
                          | None \<Rightarrow>
                              (let drawn = draw_loop 0 final [] in
                               case imwrite (output_path image_path) drawn of
                                 Inl e \<Rightarrow>
                                   \<lparr>stdout = [labeled], exit_status = 1, uncaught = Some e,
                                    written = []\<rparr>
                               | Inr ok \<Rightarrow>
                                   \<lparr>stdout = [labeled], exit_status = 0, uncaught = None,
                                    written =
                                      (if ok then [(output_path image_path, drawn)]
                                       else [])\<rparr>))))))"

section \<open>The specification's notions\<close>

text \<open>
  The definitions of this section follow the words of the specification, not the code;
  the theorems below compare the code with them.

  Intersection over union: the area of the intersection of two axis-aligned rectangles
  divided by the area of their union, and 0 when the rectangles do not overlap.
\<close>

definition inter_area :: "box \<Rightarrow> box \<Rightarrow> int" where
  "inter_area a b =
    (let iw = min (box_x a + width a) (box_x b + width b) - max (box_x a) (box_x b);
         ih = min (box_y a + height a) (box_y b + height b) - max (box_y a) (box_y b)
     in if 0 < iw \<and> 0 < ih then iw * ih else 0)"

definition iou :: "box \<Rightarrow> box \<Rightarrow> rat" where
  "iou a b =
    (if inter_area a b = 0 then 0
     else of_int (inter_area a b) / of_int (area a + area b - inter_area a b))"

text \<open>
  Greedy acceptance: a candidate is accepted if and only if its IoU with every region
  accepted so far is at most one half.
\<close>

definition acceptable :: "box list \<Rightarrow> box \<Rightarrow> bool" where
  "acceptable accepted c \<longleftrightarrow> (\<forall>a \<in> set accepted. iou c a \<le> 1 / 2)"

fun greedy_accept :: "box list \<Rightarrow> box list \<Rightarrow> box list" where
  "greedy_accept accepted [] = accepted"
| "greedy_accept accepted (c # cs) =
    greedy_accept (if acceptable accepted c then accepted @ [c] else accepted) cs"

text \<open>
  The plausibility predicate: width at least 50, height at least 30, neither more than
  0.9 times the image's, and both ratios at most 15.
\<close>

definition plausible :: "int \<times> int \<Rightarrow> box \<Rightarrow> bool" where
  "plausible image_shape b \<longleftrightarrow>
     width b \<ge> 50 \<and> height b \<ge> 30 \<and>
     of_int (width b) \<le> (9 / 10 :: rat) * of_int (snd image_shape) \<and>
     of_int (height b) \<le> (9 / 10 :: rat) * of_int (fst image_shape) \<and>
     (of_int (width b) / of_int (height b) :: rat) \<le> 15 \<and>
     (of_int (height b) / of_int (width b) :: rat) \<le> 15"

text \<open>Every later region of the list has an IoU of at most one half with every earlier one.\<close>

definition pairwise_ok :: "box list \<Rightarrow> bool" where
  "pairwise_ok xs = sorted_wrt (\<lambda>a b. iou b a \<le> 1 / 2) xs"

text \<open>
  The acceptance test of the edge generator as the specification words it, with a
  ratio "within 10:1 in either direction": a ratio of exactly 10 is within 10:1.
\<close>

definition within_10_to_1 :: "contour \<Rightarrow> bool" where
  "within_10_to_1 c \<longleftrightarrow>
     contourArea c > 500 \<and> approx_len c \<ge> 4 \<and>
     (case approx_rect c of (x, y, w, h) \<Rightarrow>
        w > 30 \<and> h > 30 \<and> w \<le> 10 * h \<and> h \<le> 10 * w)"

text \<open>
  The same test with both ratios strictly below 10.
\<close>

definition edges_keep :: "contour \<Rightarrow> bool" where
  "edges_keep c \<longleftrightarrow>
     contourArea c > 500 \<and> approx_len c \<ge> 4 \<and>
     (case approx_rect c of (x, y, w, h) \<Rightarrow>
        w > 30 \<and> h > 30 \<and> (of_int w / of_int h :: rat) < 10 \<and> (of_int h / of_int w :: rat) < 10)"

text \<open>The value of a decimal digit string, to read \<open>str_nat\<close> back.\<close>

definition digit_val :: "char \<Rightarrow> nat" where
  "digit_val c = of_char c - 48"

definition nat_of_str :: "string \<Rightarrow> nat" where
  "nat_of_str s = foldl (\<lambda>a c. 10 * a + digit_val c) 0 s"

text \<open>The regions A and B of the specification's overlap example.\<close>

definition region_A :: box where
  "region_A = \<lparr>box_x = 0, box_y = 0, width = 100, height = 100\<rparr>"

definition region_B :: box where
  "region_B = \<lparr>box_x = 10, box_y = 10, width = 90, height = 90\<rparr>"

text \<open>
  A sample image for the concrete runs below: 400 rows and 600 columns, where only the
  adaptive threshold finds a contour, with the bounding rectangle \<open>(10, 20, 100, 90)\<close>.
\<close>

definition sample_image :: "unit raster" where
  "sample_image =
    \<lparr>shape = (400, 600), canny_contours = (\<lambda>low_high. []), morph_contours = (\<lambda>ksize. []),
     adaptive_contours =
       [\<lparr>contourArea = 8000, approx_len = 4, approx_rect = (10, 20, 100, 90),
         boundingRect = (10, 20, 100, 90)\<rparr>],
     inrange_contours = (\<lambda>lower_upper. []), hough_lines = None, crop = (\<lambda>b. ())\<rparr>"

definition sample_imread :: "string \<Rightarrow> unit raster option" where
  "sample_imread path = (if path = ''shot.png'' then Some sample_image else None)"

text \<open>
  A second sample image, where the adaptive threshold finds three contours; their
  bounding rectangles do not overlap and all three pass the plausibility filter.
\<close>

definition three_region_image :: "unit raster" where
  "three_region_image =
    \<lparr>shape = (400, 600), canny_contours = (\<lambda>low_high. []), morph_contours = (\<lambda>ksize. []),
     adaptive_contours =
       [\<lparr>contourArea = 8000, approx_len = 4, approx_rect = (10, 20, 100, 90),
         boundingRect = (10, 20, 100, 90)\<rparr>,
        \<lparr>contourArea = 6500, approx_len = 4, approx_rect = (200, 20, 120, 60),
         boundingRect = (200, 20, 120, 60)\<rparr>,
        \<lparr>contourArea = 25000, approx_len = 4, approx_rect = (10, 200, 300, 100),
         boundingRect = (10, 200, 300, 100)\<rparr>],
     inrange_contours = (\<lambda>lower_upper. []), hough_lines = None, crop = (\<lambda>b. ())\<rparr>"

definition three_region_imread :: "string \<Rightarrow> unit raster option" where
  "three_region_imread path = (if path = ''shot.png'' then Some three_region_image else None)"

section \<open>Properties of the overlap computation and of the two filters\<close>

lemma inter_bounds:
  fixes x1 w1 x2 w2 y1 h1 y2 h2 :: int
  assumes "max x1 x2 < min (x1 + w1) (x2 + w2)" and "max y1 y2 < min (y1 + h1) (y2 + h2)"
  shows "0 < (min (x1 + w1) (x2 + w2) - max x1 x2) * (min (y1 + h1) (y2 + h2) - max y1 y2)"
    and "(min (x1 + w1) (x2 + w2) - max x1 x2) * (min (y1 + h1) (y2 + h2) - max y1 y2) \<le> w1 * h1"
    and "(min (x1 + w1) (x2 + w2) - max x1 x2) * (min (y1 + h1) (y2 + h2) - max y1 y2) \<le> w2 * h2"
proof -
  let ?iw = "min (x1 + w1) (x2 + w2) - max x1 x2"
  let ?ih = "min (y1 + h1) (y2 + h2) - max y1 y2"
  have iw: "0 < ?iw" "?iw \<le> w1" "?iw \<le> w2" using assms(1) by auto
  have ih: "0 < ?ih" "?ih \<le> h1" "?ih \<le> h2" using assms(2) by auto
  show "0 < ?iw * ?ih" using iw(1) ih(1) by simp
  show "?iw * ?ih \<le> w1 * h1" using iw ih by (intro mult_mono) auto
  show "?iw * ?ih \<le> w2 * h2" using iw ih by (intro mult_mono) auto
qed

lemma inter_area_pos_iff:
  "0 < inter_area a b \<longleftrightarrow>
     max (box_x a) (box_x b) < min (box_x a + width a) (box_x b + width b) \<and>
     max (box_y a) (box_y b) < min (box_y a + height a) (box_y b + height b)"
  unfolding inter_area_def Let_def by (auto simp: zero_less_mult_iff)

lemma inter_area_nonneg: "0 \<le> inter_area a b"
  unfolding inter_area_def Let_def by auto

lemma inter_area_le:
  assumes "0 < inter_area a b"
  shows "inter_area a b \<le> area a" and "inter_area a b \<le> area b"
proof -
  from assms have h: "max (box_x a) (box_x b) < min (box_x a + width a) (box_x b + width b)"
     "max (box_y a) (box_y b) < min (box_y a + height a) (box_y b + height b)"
    by (simp_all add: inter_area_pos_iff)
  have e: "inter_area a b = (min (box_x a + width a) (box_x b + width b) - max (box_x a) (box_x b)) *
      (min (box_y a + height a) (box_y b + height b) - max (box_y a) (box_y b))"
    using h unfolding inter_area_def Let_def by simp
  show "inter_area a b \<le> area a" unfolding e area_def by (rule inter_bounds(2)[OF h])
  show "inter_area a b \<le> area b" unfolding e area_def by (rule inter_bounds(3)[OF h])
qed

lemma union_pos:
  assumes "0 < inter_area a b"
  shows "inter_area a b \<le> area a + area b - inter_area a b"
  using inter_area_le[OF assms] by linarith

lemma calculate_overlap_iou: "calculate_overlap a b = Inr (iou a b)"
proof (cases "0 < inter_area a b")
  case True
  then have h: "max (box_x a) (box_x b) < min (box_x a + width a) (box_x b + width b)"
     "max (box_y a) (box_y b) < min (box_y a + height a) (box_y b + height b)"
    by (simp_all add: inter_area_pos_iff)
  have e: "inter_area a b = (min (box_x a + width a) (box_x b + width b) - max (box_x a) (box_x b)) *
      (min (box_y a + height a) (box_y b + height b) - max (box_y a) (box_y b))"
    using h unfolding inter_area_def Let_def by simp
  have u: "area a + area b - inter_area a b \<noteq> 0" using union_pos[OF True] True by linarith
  have "calculate_overlap a b =
      truediv (of_int (inter_area a b)) (of_int (area a + area b - inter_area a b))"
    using h unfolding calculate_overlap_def Let_def e area_def by simp
  also have "\<dots> = Inr (iou a b)"
    using u True unfolding truediv_def iou_def by simp
  finally show ?thesis .
next
  case False
  then have z: "inter_area a b = 0" using inter_area_nonneg[of a b] by linarith
  have n: "\<not> (max (box_x a) (box_x b) < min (box_x a + width a) (box_x b + width b) \<and>
     max (box_y a) (box_y b) < min (box_y a + height a) (box_y b + height b))"
    using False by (simp add: inter_area_pos_iff)
  show ?thesis using n z unfolding calculate_overlap_def Let_def iou_def by auto
qed

lemma inter_area_sym: "inter_area a b = inter_area b a"
  unfolding inter_area_def Let_def by (simp add: max.commute min.commute)

lemma iou_sym: "iou a b = iou b a"
  unfolding iou_def by (simp add: inter_area_sym add.commute)

lemma iou_bounds: "0 \<le> iou a b \<and> iou a b \<le> 1"
proof (cases "0 < inter_area a b")
  case True
  with union_pos[OF True] show ?thesis unfolding iou_def
    by (auto simp: divide_le_eq_1 zero_le_divide_iff)
next
  case False
  then have "inter_area a b = 0" using inter_area_nonneg[of a b] by linarith
  then show ?thesis unfolding iou_def by simp
qed


lemma is_duplicate_iff:
  "is_duplicate thr b fs = Inr (\<exists>e \<in> set fs. iou b e > thr)"
  by (induction fs) (simp_all add: calculate_overlap_iou)

lemma dedup_loop_greedy:
  "dedup_loop (1 / 2) bs acc = Inr (greedy_accept acc bs)"
proof (induction bs arbitrary: acc)
  case Nil
  show ?case by simp
next
  case (Cons b bs)
  have "(\<not> (\<exists>e \<in> set acc. iou b e > 1 / 2)) = acceptable acc b"
    unfolding acceptable_def by (auto simp: not_less)
  then show ?case by (simp add: is_duplicate_iff Cons.IH)
qed

lemma sorted_reverse_mset: "mset (sorted_reverse key xs) = mset xs"
  by (simp add: sorted_reverse_def)

lemma sorted_reverse_desc: "sorted_wrt (\<lambda>a b. key a \<ge> key b) (sorted_reverse key xs)"
proof -
  have "sorted (map key (sort_key key (rev xs)))" by (rule sorted_sort_key)
  then have "sorted_wrt (\<lambda>a b. key a \<le> key b) (sort_key key (rev xs))"
    by (simp add: sorted_map)
  then show ?thesis
    unfolding sorted_reverse_def by (simp add: sorted_wrt_rev)
qed

lemma sorted_reverse_stable:
  "filter (\<lambda>b. key b = k) (sorted_reverse key xs) = filter (\<lambda>b. key b = k) xs"
  unfolding sorted_reverse_def by (simp add: rev_filter[symmetric] sort_key_stable)

lemma remove_overlapping_boxes_eq:
  "remove_overlapping_boxes boxes (1 / 2) = Inr (greedy_accept [] (sorted_reverse area boxes))"
  by (simp add: remove_overlapping_boxes_def dedup_loop_greedy sorted_reverse_def)

lemma greedy_accept_pairwise:
  "pairwise_ok acc \<Longrightarrow> pairwise_ok (greedy_accept acc cs)"
proof (induction cs arbitrary: acc)
  case Nil
  then show ?case by simp
next
  case (Cons c cs)
  show ?case
  proof (cases "acceptable acc c")
    case True
    then have "pairwise_ok (acc @ [c])"
      using Cons.prems unfolding acceptable_def pairwise_ok_def sorted_wrt_append by simp
    then show ?thesis using True Cons.IH by simp
  next
    case False
    then show ?thesis using Cons.IH[OF Cons.prems] by simp
  qed
qed

lemma ui_box_ok_plausible: "ui_box_ok image_shape b = Inr (plausible image_shape b)"
  unfolding ui_box_ok_def plausible_def truediv_def Let_def
  by (auto simp: mult.commute)

lemma filter_loop_filter:
  "filter_loop image_shape boxes acc = Inr (acc @ filter (plausible image_shape) boxes)"
  by (induction boxes arbitrary: acc) (simp_all add: ui_box_ok_plausible)

lemma filter_ui_boxes_filter:
  "filter_ui_boxes image_shape boxes = Inr (filter (plausible image_shape) boxes)"
  by (simp add: filter_ui_boxes_def filter_loop_filter)

lemma final_boxes_eq:
  "final_boxes image_shape pool =
     Inr (filter (plausible image_shape) (greedy_accept [] (sorted_reverse area pool)))"
  by (simp add: final_boxes_def remove_overlapping_boxes_eq filter_ui_boxes_filter)

lemma final_pairwise: "pairwise_ok (filter (plausible image_shape) (greedy_accept [] (sorted_reverse area pool)))"
proof -
  have "pairwise_ok (greedy_accept [] (sorted_reverse area pool))"
    by (rule greedy_accept_pairwise) (simp add: pairwise_ok_def)
  then show ?thesis unfolding pairwise_ok_def by (rule sorted_wrt_filter)
qed

lemma pairwise_ok_nth:
  assumes "pairwise_ok xs" "i < length xs" "j < length xs" "i \<noteq> j"
  shows "iou (xs ! i) (xs ! j) \<le> 1 / 2"
proof (cases "i < j")
  case True
  then have "iou (xs ! j) (xs ! i) \<le> 1 / 2"
    using assms unfolding pairwise_ok_def by (simp add: sorted_wrt_iff_nth_less)
  then show ?thesis by (simp add: iou_sym)
next
  case False
  then have "j < i" using assms(4) by simp
  then show ?thesis
    using assms unfolding pairwise_ok_def by (simp add: sorted_wrt_iff_nth_less)
qed

subsection \<open>Claim C9: the overlap computation is total\<close>

text \<open>
  Claim C9. For every pair of boxes, zero-area boxes and boxes with negative sizes
  included, \<open>calculate_overlap\<close> returns a number between 0 and 1 and never raises
  \<open>ZeroDivisionError\<close>. It divides only when \<open>left < right\<close> and \<open>top < bottom\<close>; then
  the intersection is strictly positive and the union is at least the intersection, so
  the divisor is positive. Boxes that are disjoint or only touch give 0.
\<close>

theorem calculate_overlap_total:
  "(\<exists>r. calculate_overlap box1 box2 = Inr r \<and> 0 \<le> r \<and> r \<le> 1) \<and>
   (let left = max (box_x box1) (box_x box2);
        top = max (box_y box1) (box_y box2);
        right = min (box_x box1 + width box1) (box_x box2 + width box2);
        bottom = min (box_y box1 + height box1) (box_y box2 + height box2);
        intersection = (right - left) * (bottom - top);
        union = width box1 * height box1 + width box2 * height box2 - intersection
    in (left < right \<and> top < bottom \<longrightarrow>
          0 < intersection \<and> intersection \<le> union \<and>
          calculate_overlap box1 box2 = Inr (of_int intersection / of_int union)) \<and>
       (\<not> (left < right \<and> top < bottom) \<longrightarrow> calculate_overlap box1 box2 = Inr 0))"
proof -
  let ?l = "max (box_x box1) (box_x box2)"
  let ?t = "max (box_y box1) (box_y box2)"
  let ?r = "min (box_x box1 + width box1) (box_x box2 + width box2)"
  let ?b = "min (box_y box1 + height box1) (box_y box2 + height box2)"
  let ?i = "(?r - ?l) * (?b - ?t)"
  let ?u = "width box1 * height box1 + width box2 * height box2 - ?i"
  have total: "\<exists>r. calculate_overlap box1 box2 = Inr r \<and> 0 \<le> r \<and> r \<le> 1"
    using iou_bounds[of box1 box2] by (simp add: calculate_overlap_iou)
  have pos: "0 < ?i \<and> ?i \<le> ?u \<and> calculate_overlap box1 box2 = Inr (of_int ?i / of_int ?u)"
    if h: "?l < ?r \<and> ?t < ?b"
  proof -
    have p: "0 < ?i" using inter_bounds(1)[of "box_x box1" "box_x box2" "width box1" "width box2"
          "box_y box1" "box_y box2" "height box1" "height box2"] h by simp
    have a1: "?i \<le> width box1 * height box1"
      using inter_bounds(2)[of "box_x box1" "box_x box2" "width box1" "width box2"
          "box_y box1" "box_y box2" "height box1" "height box2"] h by simp
    have a2: "?i \<le> width box2 * height box2"
      using inter_bounds(3)[of "box_x box1" "box_x box2" "width box1" "width box2"
          "box_y box1" "box_y box2" "height box1" "height box2"] h by simp
    have u: "?i \<le> ?u" using a1 a2 by linarith
    then have nz: "?u \<noteq> 0" using p by linarith
    have nzr: "(of_int ?u :: rat) \<noteq> 0"
      using nz by (simp only: of_int_eq_0_iff not_False_eq_True)
    have c: "calculate_overlap box1 box2 = truediv (of_int ?i) (of_int ?u)"
      using h by (simp add: calculate_overlap_def Let_def)
    have "truediv (of_int ?i) (of_int ?u) = Inr (of_int ?i / of_int ?u)"
      unfolding truediv_def using nzr by (simp only: if_False)
    with c have "calculate_overlap box1 box2 = Inr (of_int ?i / of_int ?u)"
      by (simp only:)
    with p u show ?thesis by blast
  qed
  have neg: "calculate_overlap box1 box2 = Inr 0" if "\<not> (?l < ?r \<and> ?t < ?b)"
    using that unfolding calculate_overlap_def Let_def by auto
  show ?thesis unfolding Let_def using total pos neg by blast
qed

theorem calculate_overlap_total_witness:
  "calculate_overlap \<lparr>box_x = 5, box_y = 5, width = 0, height = 0\<rparr>
      \<lparr>box_x = 5, box_y = 5, width = 0, height = 0\<rparr> = Inr 0 \<and>
   calculate_overlap region_A \<lparr>box_x = 100, box_y = 0, width = 50, height = 100\<rparr> = Inr 0 \<and>
   calculate_overlap region_A region_B = Inr (81 / 100)"
  using calculate_overlap_total[of "\<lparr>box_x = 5, box_y = 5, width = 0, height = 0\<rparr>"
      "\<lparr>box_x = 5, box_y = 5, width = 0, height = 0\<rparr>"]
    calculate_overlap_total[of region_A "\<lparr>box_x = 100, box_y = 0, width = 50, height = 100\<rparr>"]
    calculate_overlap_total[of region_A region_B]
  by (simp add: region_A_def region_B_def Let_def)

subsection \<open>Claim C1: the deduplicator\<close>

text \<open>
  Claim C1. With the default threshold, \<open>remove_overlapping_boxes\<close> returns the greedy
  acceptance run over a list \<open>s\<close> that is the pool sorted by area in descending order
  by a stable sort (\<open>s\<close> is a permutation of the pool, its areas never increase, and
  regions of equal area stand in their pool order): a candidate is accepted if and only
  if its IoU with every region accepted before it is at most one half. For the pool of
  the two regions A and B of the specification, in either order, only A is kept.
\<close>

theorem remove_overlapping_boxes_greedy:
  "(\<exists>s. mset s = mset boxes \<and>
        sorted_wrt (\<lambda>a b. area a \<ge> area b) s \<and>
        (\<forall>k. filter (\<lambda>b. area b = k) s = filter (\<lambda>b. area b = k) boxes) \<and>
        remove_overlapping_boxes boxes (1 / 2) = Inr (greedy_accept [] s)) \<and>
   remove_overlapping_boxes [region_A, region_B] (1 / 2) = Inr [region_A] \<and>
   remove_overlapping_boxes [region_B, region_A] (1 / 2) = Inr [region_A]"
proof -
  have "mset (sorted_reverse area boxes) = mset boxes \<and>
        sorted_wrt (\<lambda>a b. area a \<ge> area b) (sorted_reverse area boxes) \<and>
        (\<forall>k. filter (\<lambda>b. area b = k) (sorted_reverse area boxes) = filter (\<lambda>b. area b = k) boxes) \<and>
        remove_overlapping_boxes boxes (1 / 2) = Inr (greedy_accept [] (sorted_reverse area boxes))"
    using sorted_reverse_mset[of area boxes] sorted_reverse_desc[of area boxes]
      sorted_reverse_stable[of area _ boxes] remove_overlapping_boxes_eq[of boxes]
    by blast
  then have general: "\<exists>s. mset s = mset boxes \<and>
        sorted_wrt (\<lambda>a b. area a \<ge> area b) s \<and>
        (\<forall>k. filter (\<lambda>b. area b = k) s = filter (\<lambda>b. area b = k) boxes) \<and>
        remove_overlapping_boxes boxes (1 / 2) = Inr (greedy_accept [] s)"
    by (rule exI)
  have ab: "remove_overlapping_boxes [region_A, region_B] (1 / 2) = Inr [region_A]"
    by (simp add: remove_overlapping_boxes_def sorted_reverse_def area_def region_A_def
        region_B_def calculate_overlap_def truediv_def Let_def)
  have ba: "remove_overlapping_boxes [region_B, region_A] (1 / 2) = Inr [region_A]"
    by (simp add: remove_overlapping_boxes_def sorted_reverse_def area_def region_A_def
        region_B_def calculate_overlap_def truediv_def Let_def)
  from general ab ba show ?thesis by blast
qed

theorem remove_overlapping_boxes_greedy_witness:
  "remove_overlapping_boxes
     [region_B, \<lparr>box_x = 200, box_y = 200, width = 60, height = 60\<rparr>, region_A] (1 / 2)
   = Inr [region_A, \<lparr>box_x = 200, box_y = 200, width = 60, height = 60\<rparr>]"
  using remove_overlapping_boxes_greedy
    [of "[region_B, \<lparr>box_x = 200, box_y = 200, width = 60, height = 60\<rparr>, region_A]"]
  by (simp add: remove_overlapping_boxes_def sorted_reverse_def area_def region_A_def
      region_B_def calculate_overlap_def truediv_def Let_def)

subsection \<open>Claim C2: pairwise IoU of the final output\<close>

text \<open>
  Claim C2. For every candidate pool and every image shape, deduplication followed by
  the plausibility filter returns a list (it never raises), and any two regions at
  different positions of that list have an overlap of at most one half, as
  \<open>calculate_overlap\<close> computes it.
\<close>

theorem final_boxes_pairwise_iou:
  "\<exists>out. final_boxes image_shape pool = Inr out \<and>
     (\<forall>i j. i < length out \<and> j < length out \<and> i \<noteq> j \<longrightarrow>
        (\<exists>r. calculate_overlap (out ! i) (out ! j) = Inr r \<and> r \<le> 1 / 2))"
proof -
  let ?out = "filter (plausible image_shape) (greedy_accept [] (sorted_reverse area pool))"
  have eq: "final_boxes image_shape pool = Inr ?out" by (rule final_boxes_eq)
  have pw: "pairwise_ok ?out" by (rule final_pairwise)
  have "\<exists>r. calculate_overlap (?out ! i) (?out ! j) = Inr r \<and> r \<le> 1 / 2"
    if "i < length ?out \<and> j < length ?out \<and> i \<noteq> j" for i j
  proof -
    have "iou (?out ! i) (?out ! j) \<le> 1 / 2"
      using pairwise_ok_nth[OF pw] that by blast
    then show ?thesis using calculate_overlap_iou[of "?out ! i" "?out ! j"] by blast
  qed
  with eq show ?thesis by blast
qed

theorem final_boxes_pairwise_iou_witness:
  "final_boxes (1000, 1000)
     [region_B, \<lparr>box_x = 200, box_y = 200, width = 60, height = 60\<rparr>, region_A]
   = Inr [region_A, \<lparr>box_x = 200, box_y = 200, width = 60, height = 60\<rparr>] \<and>
   (\<exists>r. calculate_overlap region_A \<lparr>box_x = 200, box_y = 200, width = 60, height = 60\<rparr> = Inr r
        \<and> r \<le> 1 / 2)"
proof -
  let ?C = "\<lparr>box_x = 200, box_y = 200, width = 60, height = 60\<rparr>"
  have ev: "final_boxes (1000, 1000) [region_B, ?C, region_A] = Inr [region_A, ?C]"
    by (simp add: final_boxes_def filter_ui_boxes_def ui_box_ok_def
        remove_overlapping_boxes_def sorted_reverse_def area_def region_A_def
        region_B_def calculate_overlap_def truediv_def Let_def)
  obtain out where o: "final_boxes (1000, 1000) [region_B, ?C, region_A] = Inr out"
    and p: "\<forall>i j. i < length out \<and> j < length out \<and> i \<noteq> j \<longrightarrow>
        (\<exists>r. calculate_overlap (out ! i) (out ! j) = Inr r \<and> r \<le> 1 / 2)"
    using final_boxes_pairwise_iou[of "(1000, 1000)" "[region_B, ?C, region_A]"] by blast
  from o ev have out: "out = [region_A, ?C]" by simp
  have len: "(0::nat) < length out \<and> (1::nat) < length out \<and> (0::nat) \<noteq> 1"
    using out by simp
  have "\<exists>r. calculate_overlap (out ! 0) (out ! 1) = Inr r \<and> r \<le> 1 / 2"
    by (rule p[rule_format, OF len])
  then have "\<exists>r. calculate_overlap region_A ?C = Inr r \<and> r \<le> 1 / 2"
    using out by simp
  with ev show ?thesis by blast
qed

subsection \<open>Claim C3: the plausibility filter\<close>

text \<open>
  Claim C3. \<open>filter_ui_boxes\<close> never raises and returns exactly the regions of its input
  with width at least 50, height at least 30, width at most 0.9 times the image width,
  height at most 0.9 times the image height and both ratios at most 15, in the order of
  the input (the result is the input list filtered by that predicate).
\<close>

theorem filter_ui_boxes_keeps:
  "filter_ui_boxes image_shape boxes =
     Inr (filter (\<lambda>b. width b \<ge> 50 \<and> height b \<ge> 30 \<and>
                     of_int (width b) \<le> (9 / 10 :: rat) * of_int (snd image_shape) \<and>
                     of_int (height b) \<le> (9 / 10 :: rat) * of_int (fst image_shape) \<and>
                     (of_int (width b) / of_int (height b) :: rat) \<le> 15 \<and>
                     (of_int (height b) / of_int (width b) :: rat) \<le> 15) boxes)"
  using filter_ui_boxes_filter[of image_shape boxes] unfolding plausible_def[abs_def] .

section \<open>Properties of the generators\<close>

lemma edges_accept_keep: "edges_accept c = Inr (edges_keep c)"
  unfolding edges_accept_def edges_keep_def truediv_def
  by (auto split: prod.splits)

lemma edges_contour_loop_filter:
  "edges_contour_loop cs boxes =
     Inr (boxes @ map (\<lambda>c. mk_box (approx_rect c)) (filter edges_keep cs))"
  by (induction cs arbitrary: boxes) (simp_all add: edges_accept_keep)

lemma edges_threshold_loop_concat:
  "edges_threshold_loop gray ths boxes =
     Inr (boxes @ concat (map (\<lambda>low_high. map (\<lambda>c. mk_box (approx_rect c))
                                   (filter edges_keep (canny_contours gray low_high))) ths))"
  by (induction ths arbitrary: boxes) (simp_all add: edges_contour_loop_filter)

subsection \<open>Claim C8: the acceptance test of the edge generator\<close>

text \<open>
  Claim C8, amended. The edge generator never raises, and it turns a contour into a
  region if and only if the contour area exceeds 500, the approximated polygon has at
  least 4 vertices, the width and the height of its bounding rectangle both exceed 30,
  and both ratios, width by height and height by width, are strictly below 10. Its
  result is, for the three threshold pairs in turn, the bounding rectangles of the
  accepted contours in the order of the contours.
\<close>

theorem detect_edges_multi_threshold_accepts:
  "edges_accept c =
     Inr (contourArea c > 500 \<and> approx_len c \<ge> 4 \<and>
          (case approx_rect c of (x, y, w, h) \<Rightarrow>
             w > 30 \<and> h > 30 \<and>
             (of_int w / of_int h :: rat) < 10 \<and>
             (of_int h / of_int w :: rat) < 10)) \<and>
   detect_edges_multi_threshold gray =
     Inr (concat (map (\<lambda>low_high. map (\<lambda>c. mk_box (approx_rect c))
            (filter (\<lambda>c. contourArea c > 500 \<and> approx_len c \<ge> 4 \<and>
                       (case approx_rect c of (x, y, w, h) \<Rightarrow>
                          w > 30 \<and> h > 30 \<and>
                          (of_int w / of_int h :: rat) < 10 \<and>
                          (of_int h / of_int w :: rat) < 10))
               (canny_contours gray low_high)))
          [(30, 100), (50, 150), (70, 200)]))"
proof -
  have one: "edges_accept c =
     Inr (contourArea c > 500 \<and> approx_len c \<ge> 4 \<and>
          (case approx_rect c of (x, y, w, h) \<Rightarrow>
             w > 30 \<and> h > 30 \<and>
             (of_int w / of_int h :: rat) < 10 \<and>
             (of_int h / of_int w :: rat) < 10))"
    using edges_accept_keep[of c] unfolding edges_keep_def .
  have every: "detect_edges_multi_threshold gray =
     Inr (concat (map (\<lambda>low_high. map (\<lambda>c. mk_box (approx_rect c))
            (filter (\<lambda>c. contourArea c > 500 \<and> approx_len c \<ge> 4 \<and>
                       (case approx_rect c of (x, y, w, h) \<Rightarrow>
                          w > 30 \<and> h > 30 \<and>
                          (of_int w / of_int h :: rat) < 10 \<and>
                          (of_int h / of_int w :: rat) < 10))
               (canny_contours gray low_high)))
          [(30, 100), (50, 150), (70, 200)]))"
    using edges_threshold_loop_concat[of gray "[(30, 100), (50, 150), (70, 200)]" "[]"]
    unfolding detect_edges_multi_threshold_def edges_keep_def[abs_def] by simp
  from one every show ?thesis by (rule conjI)
qed

text \<open>
  Claim C8 as stated fails at a ratio of exactly 10: a contour of area 600 with a
  4-vertex polygon and the bounding rectangle 310 by 31 meets every condition of the
  claim, its ratio being within 10:1, and the generator rejects it.
\<close>

theorem edges_ratio_of_exactly_ten_rejected:
  "within_10_to_1
     \<lparr>contourArea = 600, approx_len = 4, approx_rect = (0, 0, 310, 31),
      boundingRect = (0, 0, 310, 31)\<rparr> \<and>
   edges_accept
     \<lparr>contourArea = 600, approx_len = 4, approx_rect = (0, 0, 310, 31),
      boundingRect = (0, 0, 310, 31)\<rparr> = Inr False"
  by (simp add: within_10_to_1_def edges_accept_def truediv_def)

lemma lines_v_loop_sizes:
  "\<forall>b \<in> set boxes. width b > 30 \<and> height b > 30 \<Longrightarrow>
   \<forall>b \<in> set (lines_v_loop h_line vs boxes). width b > 30 \<and> height b > 30"
proof (induction vs arbitrary: boxes)
  case Nil
  then show ?case by simp
next
  case (Cons v vs)
  obtain h0 h1 h2 where h: "h_line = (h0, h1, h2)" by (cases h_line)
  obtain v0 v1 v2 where v: "v = (v0, v1, v2)" by (cases v)
  let ?new = "mk_box (v2, h2, \<bar>h1 - h0\<bar>, \<bar>v1 - v0\<bar>)"
  have ext: "\<forall>b \<in> set (boxes @ [?new]). width b > 30 \<and> height b > 30"
    if "\<bar>h1 - h0\<bar> > 30 \<and> \<bar>v1 - v0\<bar> > 30"
    using that Cons.prems by (auto simp: mk_box_def)
  show ?case
    using Cons.IH[OF Cons.prems] Cons.IH[OF ext]
    by (simp add: h v Let_def)
qed

lemma lines_h_loop_sizes:
  "\<forall>b \<in> set boxes. width b > 30 \<and> height b > 30 \<Longrightarrow>
   \<forall>b \<in> set (lines_h_loop hs vs boxes). width b > 30 \<and> height b > 30"
proof (induction hs arbitrary: boxes)
  case Nil
  then show ?case by simp
next
  case (Cons h hs)
  show ?case using Cons.IH[OF lines_v_loop_sizes[OF Cons.prems]] by simp
qed

subsection \<open>Claim C10: the sizes of the line-intersection regions\<close>

text \<open>
  Claim C10. Every region that \<open>detect_lines_boxes\<close> returns has a width above 30 and a
  height above 30, whatever segments the line transform found; no region of zero or
  negative width or height reaches the pool from this generator.
\<close>

theorem detect_lines_boxes_sizes:
  "\<forall>b \<in> set (detect_lines_boxes gray). width b > 30 \<and> height b > 30"
proof (cases "hough_lines gray")
  case None
  then show ?thesis by (simp add: detect_lines_boxes_def)
next
  case (Some lines)
  obtain hs vs where c: "classify_lines lines [] [] = (hs, vs)"
    by (cases "classify_lines lines [] []")
  have "\<forall>b \<in> set (lines_h_loop hs vs []). width b > 30 \<and> height b > 30"
    by (rule lines_h_loop_sizes) simp
  then show ?thesis by (simp add: detect_lines_boxes_def Some c)
qed

theorem detect_lines_boxes_sizes_witness:
  "detect_lines_boxes
     \<lparr>shape = (400, 600), canny_contours = (\<lambda>t. []), morph_contours = (\<lambda>k. []),
      adaptive_contours = [], inrange_contours = (\<lambda>r. []),
      hough_lines = Some [(20, 50, 220, 52), (25, 40, 24, 140), (0, 0, 25, 3), (300, 0, 301, 20),
                          (0, 0, 100, 100)],
      crop = (\<lambda>b. ())\<rparr>
   = [\<lparr>box_x = 25, box_y = 50, width = 200, height = 100\<rparr>] \<and>
   (30 :: int) < width \<lparr>box_x = 25, box_y = 50, width = 200, height = 100\<rparr> \<and>
   (30 :: int) < height \<lparr>box_x = 25, box_y = 50, width = 200, height = 100\<rparr>"
  using detect_lines_boxes_sizes[of
     "\<lparr>shape = (400, 600), canny_contours = (\<lambda>t. []), morph_contours = (\<lambda>k. []),
      adaptive_contours = [], inrange_contours = (\<lambda>r. []),
      hough_lines = Some [(20, 50, 220, 52), (25, 40, 24, 140), (0, 0, 25, 3), (300, 0, 301, 20),
                          (0, 0, 100, 100)],
      crop = (\<lambda>b. ())\<rparr>"]
  by (simp add: detect_lines_boxes_def mk_box_def Let_def)

section \<open>Properties of the enrichment and of the script\<close>

lemma digit_val_digit_char: "d < 10 \<Longrightarrow> digit_val (digit_char d) = d"
proof -
  assume "d < 10"
  then have "d \<in> {0, 1, 2, 3, 4, 5, 6, 7, 8, 9}" by auto
  then show ?thesis
    by (auto simp: digit_val_def digit_char_def)
qed

lemma nat_of_str_snoc: "nat_of_str (s @ [c]) = 10 * nat_of_str s + digit_val c"
  by (simp add: nat_of_str_def)

lemma nat_of_str_str_nat: "nat_of_str (str_nat n) = n"
proof (induction n rule: str_nat.induct)
  case (1 n)
  show ?case
  proof (cases "n < 10")
    case True
    then have "str_nat n = [digit_char n]" by (subst str_nat.simps) simp
    then show ?thesis using True by (simp add: nat_of_str_def digit_val_digit_char)
  next
    case False
    then have e: "str_nat n = str_nat (n div 10) @ [digit_char (n mod 10)]"
      by (subst str_nat.simps) simp
    have "nat_of_str (str_nat n) = 10 * (n div 10) + n mod 10"
      unfolding e nat_of_str_snoc using 1[OF False] by (simp add: digit_val_digit_char)
    then show ?thesis by simp
  qed
qed

lemma str_nat_inj:
  assumes "str_nat m = str_nat n"
  shows "m = n"
proof -
  have "m = nat_of_str (str_nat m)" by (simp only: nat_of_str_str_nat)
  also have "\<dots> = nat_of_str (str_nat n)" by (simp only: assms)
  also have "\<dots> = n" by (rule nat_of_str_str_nat)
  finally show ?thesis .
qed

lemma label_loop_enumerate:
  "label_loop gcf its img i boxes labeled =
     labeled @ map (\<lambda>(k, b). label_box gcf its img k b) (List.enumerate i boxes)"
  by (induction boxes arbitrary: i labeled) simp_all

lemma labeled_boxes_enumerate:
  "labeled_boxes gcf its img boxes =
     map (\<lambda>(k, b). label_box gcf its img k b) (List.enumerate 0 boxes)"
  by (simp add: labeled_boxes_def label_loop_enumerate)

lemma length_labeled_boxes: "length (labeled_boxes gcf its img boxes) = length boxes"
  by (simp add: labeled_boxes_enumerate)

lemma labeled_boxes_nth:
  "i < length boxes \<Longrightarrow>
     labeled_boxes gcf its img boxes ! i = label_box gcf its img i (boxes ! i)"
  by (simp add: labeled_boxes_enumerate nth_enumerate_eq)

lemma label_label_box: "label (label_box gcf its img i b) = ''UI'' @ str_nat (i + 1)"
  by (simp add: label_box_def Let_def)

lemma labels_of_labeled_boxes:
  "map label (labeled_boxes gcf its img boxes) =
     map (\<lambda>i. ''UI'' @ str_nat (i + 1)) [0..<length boxes]"
proof (rule nth_equalityI)
  show "length (map label (labeled_boxes gcf its img boxes)) =
        length (map (\<lambda>i. ''UI'' @ str_nat (i + 1)) [0..<length boxes])"
    by (simp add: length_labeled_boxes)
next
  fix i assume "i < length (map label (labeled_boxes gcf its img boxes))"
  then have i: "i < length boxes" by (simp add: length_labeled_boxes)
  then show "map label (labeled_boxes gcf its img boxes) ! i =
        map (\<lambda>i. ''UI'' @ str_nat (i + 1)) [0..<length boxes] ! i"
    by (simp add: length_labeled_boxes labeled_boxes_nth label_label_box)
qed

lemma distinct_labels: "distinct (map (\<lambda>i. ''UI'' @ str_nat (i + 1)) [0..<k])"
proof -
  have "inj_on (\<lambda>i. ''UI'' @ str_nat (i + 1)) (set [0..<k])"
  proof (rule inj_onI)
    fix a b assume "''UI'' @ str_nat (a + 1) = ''UI'' @ str_nat (b + 1)"
    then have "str_nat (a + 1) = str_nat (b + 1)" by simp
    then have "a + 1 = b + 1" by (rule str_nat_inj)
    then show "a = b" by simp
  qed
  then show ?thesis by (simp add: distinct_map)
qed

subsection \<open>Claim C5: the labels\<close>

text \<open>
  Claim C5. For a final list of \<open>k\<close> regions the labelling loop returns \<open>k\<close> labelled
  regions whose labels are, in order, UI1, UI2, ..., UIk, all different, and the
  region at position \<open>i\<close> (counted from 0) carries the label with the number \<open>i + 1\<close> and
  the geometry of the \<open>i\<close>-th region of the final list.
\<close>

theorem labels_sequential:
  "length (labeled_boxes gcf its img final) = length final \<and>
   map label (labeled_boxes gcf its img final) =
     map (\<lambda>i. ''UI'' @ str_nat (i + 1)) [0..<length final] \<and>
   distinct (map label (labeled_boxes gcf its img final)) \<and>
   (\<forall>i < length final.
      label (labeled_boxes gcf its img final ! i) = ''UI'' @ str_nat (i + 1) \<and>
      box_x (labeled_boxes gcf its img final ! i) = box_x (final ! i) \<and>
      box_y (labeled_boxes gcf its img final ! i) = box_y (final ! i) \<and>
      width (labeled_boxes gcf its img final ! i) = width (final ! i) \<and>
      height (labeled_boxes gcf its img final ! i) = height (final ! i))"
proof -
  have d: "distinct (map label (labeled_boxes gcf its img final))"
    unfolding labels_of_labeled_boxes by (rule distinct_labels)
  have n: "\<forall>i < length final.
      label (labeled_boxes gcf its img final ! i) = ''UI'' @ str_nat (i + 1) \<and>
      box_x (labeled_boxes gcf its img final ! i) = box_x (final ! i) \<and>
      box_y (labeled_boxes gcf its img final ! i) = box_y (final ! i) \<and>
      width (labeled_boxes gcf its img final ! i) = width (final ! i) \<and>
      height (labeled_boxes gcf its img final ! i) = height (final ! i)"
    by (simp add: labeled_boxes_nth label_box_def Let_def)
  show ?thesis
    using length_labeled_boxes[of gcf its img final]
      labels_of_labeled_boxes[of gcf its img final] d n by blast
qed

theorem labels_sequential_witness:
  "map label (labeled_boxes (\<lambda>r. ()) (\<lambda>i r. Inr [32, 111, 107, 32]) sample_image [region_B, region_A, region_B])
     = [''UI1'', ''UI2'', ''UI3''] \<and>
   map box_x (labeled_boxes (\<lambda>r. ()) (\<lambda>i r. Inr [32, 111, 107, 32]) sample_image [region_B, region_A, region_B])
     = [10, 0, 10] \<and>
   ''UI'' @ str_nat (11 + 1) = ''UI12''"
  using labels_sequential[of "\<lambda>r. ()" "\<lambda>i r. Inr [32, 111, 107, 32]" sample_image
      "[region_B, region_A, region_B]"]
  by (simp add: labeled_boxes_def label_box_def Let_def str_nat.simps digit_char_def
      region_A_def region_B_def)

lemma main_reaches_print:
  assumes "2 \<le> length argv" and "imread (argv ! 1) = Some img"
    and "all_boxes img = Inr pool" and "final_boxes (shape img) pool = Inr final"
  shows "main imread gcf its json_error imwrite argv =
     (case json_error (labeled_boxes gcf its img final) of
        Some e' \<Rightarrow> raised e'
      | None \<Rightarrow>
          (case imwrite (output_path (argv ! 1)) (draw_loop 0 final []) of
             Inl e' \<Rightarrow>
               \<lparr>stdout = [labeled_boxes gcf its img final], exit_status = 1,
                uncaught = Some e', written = []\<rparr>
           | Inr ok \<Rightarrow>
               \<lparr>stdout = [labeled_boxes gcf its img final], exit_status = 0,
                uncaught = None,
                written = (if ok then [(output_path (argv ! 1), draw_loop 0 final [])]
                           else [])\<rparr>))"
  using assms by (simp add: main_def Let_def split: option.splits sum.splits)

subsection \<open>Claim C6: a failed text extraction\<close>

text \<open>
  Claim C6. Let the text extraction for the region at position \<open>i\<close> of the final list
  raise. Then the labelling loop still returns one entry for each final region; the
  entry at \<open>i\<close> has the empty text, the fingerprint of its crop, its label and the
  geometry of the region; and the entries at all other positions are the same as in any
  run whose text extraction differs from this one only at call \<open>i\<close>. The run is not
  aborted by the failure: when the image was read and the pool and the final list were
  computed, the script goes on to \<open>json.dumps\<close> and \<open>cv2.imwrite\<close>, an exception that
  ends the run is one that \<open>json.dumps\<close> or \<open>cv2.imwrite\<close> raised, and when neither
  raises the whole list is printed and the exit status is 0.
\<close>

theorem text_failure_is_local:
  assumes "i < length final" and "its i (crop img (final ! i)) = Inl e"
  shows "length (labeled_boxes gcf its img final) = length final \<and>
         box_text (labeled_boxes gcf its img final ! i) = [] \<and>
         color_fingerprint (labeled_boxes gcf its img final ! i) = gcf (crop img (final ! i)) \<and>
         label (labeled_boxes gcf its img final ! i) = ''UI'' @ str_nat (i + 1) \<and>
         box_x (labeled_boxes gcf its img final ! i) = box_x (final ! i) \<and>
         box_y (labeled_boxes gcf its img final ! i) = box_y (final ! i) \<and>
         width (labeled_boxes gcf its img final ! i) = width (final ! i) \<and>
         height (labeled_boxes gcf its img final ! i) = height (final ! i) \<and>
         (\<forall>its'. (\<forall>j. j \<noteq> i \<longrightarrow> its' j = its j) \<longrightarrow>
            length (labeled_boxes gcf its' img final) = length final \<and>
            (\<forall>j < length final. j \<noteq> i \<longrightarrow>
               labeled_boxes gcf its' img final ! j = labeled_boxes gcf its img final ! j)) \<and>
         (2 \<le> length argv \<and> imread (argv ! 1) = Some img \<and> all_boxes img = Inr pool \<and>
          final_boxes (shape img) pool = Inr final \<longrightarrow>
            (\<forall>e'. uncaught (main imread gcf its json_error imwrite argv) = Some e' \<longrightarrow>
                json_error (labeled_boxes gcf its img final) = Some e' \<or>
                imwrite (output_path (argv ! 1)) (draw_loop 0 final []) = Inl e') \<and>
            (\<forall>ok. json_error (labeled_boxes gcf its img final) = None \<and>
                  imwrite (output_path (argv ! 1)) (draw_loop 0 final []) = Inr ok \<longrightarrow>
                main imread gcf its json_error imwrite argv =
                  \<lparr>stdout = [labeled_boxes gcf its img final], exit_status = 0,
                   uncaught = None,
                   written = (if ok then [(output_path (argv ! 1), draw_loop 0 final [])]
                              else [])\<rparr>))"
proof -
  let ?out = "labeled_boxes gcf its img final"
  have len: "length ?out = length final" by (rule length_labeled_boxes)
  have at: "?out ! i = label_box gcf its img i (final ! i)"
    by (rule labeled_boxes_nth[OF assms(1)])
  have fields: "box_text (?out ! i) = [] \<and>
          color_fingerprint (?out ! i) = gcf (crop img (final ! i)) \<and>
          label (?out ! i) = ''UI'' @ str_nat (i + 1) \<and>
          box_x (?out ! i) = box_x (final ! i) \<and> box_y (?out ! i) = box_y (final ! i) \<and>
          width (?out ! i) = width (final ! i) \<and> height (?out ! i) = height (final ! i)"
    unfolding at using assms(2)
    by (simp add: label_box_def Let_def extract_text_from_roi_def)
  have others: "length (labeled_boxes gcf its' img final) = length final \<and>
            (\<forall>j < length final. j \<noteq> i \<longrightarrow>
               labeled_boxes gcf its' img final ! j = ?out ! j)"
    if same: "\<forall>j. j \<noteq> i \<longrightarrow> its' j = its j" for its'
  proof -
    have "labeled_boxes gcf its' img final ! j = ?out ! j" if "j < length final" "j \<noteq> i" for j
      using that same by (simp add: labeled_boxes_nth label_box_def Let_def)
    then show ?thesis using length_labeled_boxes[of gcf its' img final] by blast
  qed
  have run: "(\<forall>e'. uncaught (main imread gcf its json_error imwrite argv) = Some e' \<longrightarrow>
                json_error ?out = Some e' \<or>
                imwrite (output_path (argv ! 1)) (draw_loop 0 final []) = Inl e') \<and>
            (\<forall>ok. json_error ?out = None \<and>
                  imwrite (output_path (argv ! 1)) (draw_loop 0 final []) = Inr ok \<longrightarrow>
                main imread gcf its json_error imwrite argv =
                  \<lparr>stdout = [?out], exit_status = 0, uncaught = None,
                   written = (if ok then [(output_path (argv ! 1), draw_loop 0 final [])]
                              else [])\<rparr>)"
    if h: "2 \<le> length argv \<and> imread (argv ! 1) = Some img \<and> all_boxes img = Inr pool \<and>
          final_boxes (shape img) pool = Inr final"
  proof -
    have m: "main imread gcf its json_error imwrite argv =
     (case json_error ?out of
        Some e' \<Rightarrow> raised e'
      | None \<Rightarrow>
          (case imwrite (output_path (argv ! 1)) (draw_loop 0 final []) of
             Inl e' \<Rightarrow>
               \<lparr>stdout = [?out], exit_status = 1, uncaught = Some e', written = []\<rparr>
           | Inr ok \<Rightarrow>
               \<lparr>stdout = [?out], exit_status = 0, uncaught = None,
                written = (if ok then [(output_path (argv ! 1), draw_loop 0 final [])]
                           else [])\<rparr>))"
      using h by (intro main_reaches_print) auto
    show ?thesis
      unfolding m by (auto simp: raised_def split: option.splits sum.splits)
  qed
  from len fields others run show ?thesis by blast
qed


lemma all_boxes_three_region:
  "all_boxes three_region_image =
     Inr [\<lparr>box_x = 10, box_y = 20, width = 100, height = 90\<rparr>,
          \<lparr>box_x = 200, box_y = 20, width = 120, height = 60\<rparr>,
          \<lparr>box_x = 10, box_y = 200, width = 300, height = 100\<rparr>]"
  by (simp add: all_boxes_def three_region_image_def detect_edges_multi_threshold_def
      detect_rectangular_regions_def detect_adaptive_threshold_def detect_color_regions_def
      color_ranges_def detect_lines_boxes_def mk_box_def)

lemma final_boxes_three_region:
  "final_boxes (shape three_region_image)
     [\<lparr>box_x = 10, box_y = 20, width = 100, height = 90\<rparr>,
      \<lparr>box_x = 200, box_y = 20, width = 120, height = 60\<rparr>,
      \<lparr>box_x = 10, box_y = 200, width = 300, height = 100\<rparr>]
   = Inr [\<lparr>box_x = 10, box_y = 200, width = 300, height = 100\<rparr>,
          \<lparr>box_x = 10, box_y = 20, width = 100, height = 90\<rparr>,
          \<lparr>box_x = 200, box_y = 20, width = 120, height = 60\<rparr>]"
  by (simp add: final_boxes_def three_region_image_def remove_overlapping_boxes_def
      sorted_reverse_def area_def calculate_overlap_def filter_ui_boxes_def ui_box_ok_def
      truediv_def Let_def)

theorem text_failure_is_local_witness:
  "main three_region_imread (\<lambda>r. ())
      (\<lambda>i r. if i = 1 then Inl (Exception ''TesseractError'') else Inr [160, 79, 75, 10])
      (\<lambda>l. None) (\<lambda>p d. Inr True) [''detect_ui.py'', ''shot.png''] =
     \<lparr>stdout =
        [[\<lparr>box_x = 10, box_y = 200, width = 300, height = 100, label = ''UI1'',
           color_fingerprint = (), box_text = [79, 75]\<rparr>,
          \<lparr>box_x = 10, box_y = 20, width = 100, height = 90, label = ''UI2'',
           color_fingerprint = (), box_text = []\<rparr>,
          \<lparr>box_x = 200, box_y = 20, width = 120, height = 60, label = ''UI3'',
           color_fingerprint = (), box_text = [79, 75]\<rparr>]],
      exit_status = 0, uncaught = None,
      written =
        [(''shot_annotated.png'',
          [(\<lparr>box_x = 10, box_y = 200, width = 300, height = 100\<rparr>, ''UI1'', (10, 190),
            (0, 255, 0)),
           (\<lparr>box_x = 10, box_y = 20, width = 100, height = 90\<rparr>, ''UI2'', (10, 10),
            (255, 0, 0)),
           (\<lparr>box_x = 200, box_y = 20, width = 120, height = 60\<rparr>, ''UI3'', (200, 10),
            (0, 0, 255))])]\<rparr> \<and>
   labeled_boxes (\<lambda>r. ()) (\<lambda>i r. Inr [160, 79, 75, 10]) three_region_image
      [\<lparr>box_x = 10, box_y = 200, width = 300, height = 100\<rparr>,
       \<lparr>box_x = 10, box_y = 20, width = 100, height = 90\<rparr>,
       \<lparr>box_x = 200, box_y = 20, width = 120, height = 60\<rparr>] =
     [\<lparr>box_x = 10, box_y = 200, width = 300, height = 100, label = ''UI1'',
       color_fingerprint = (), box_text = [79, 75]\<rparr>,
      \<lparr>box_x = 10, box_y = 20, width = 100, height = 90, label = ''UI2'',
       color_fingerprint = (), box_text = [79, 75]\<rparr>,
      \<lparr>box_x = 200, box_y = 20, width = 120, height = 60, label = ''UI3'',
       color_fingerprint = (), box_text = [79, 75]\<rparr>]"
proof -
  let ?argv = "[''detect_ui.py'', ''shot.png'']"
  let ?its = "\<lambda>(i::nat) (r::unit).
      if i = 1 then (Inl (Exception ''TesseractError'') :: py_error + nat list)
      else Inr [160, 79, 75, 10]"
  let ?its' = "\<lambda>(i::nat) (r::unit). (Inr [160, 79, 75, 10] :: py_error + nat list)"
  let ?json = "\<lambda>l :: unit labeled_box list. (None :: py_error option)"
  let ?imwrite = "\<lambda>(p::string) (d :: (box \<times> string \<times> (int \<times> int) \<times> (int \<times> int \<times> int)) list).
      (Inr True :: py_error + bool)"
  let ?pool = "[\<lparr>box_x = 10, box_y = 20, width = 100, height = 90\<rparr>,
      \<lparr>box_x = 200, box_y = 20, width = 120, height = 60\<rparr>,
      \<lparr>box_x = 10, box_y = 200, width = 300, height = 100\<rparr>]"
  let ?final = "[\<lparr>box_x = 10, box_y = 200, width = 300, height = 100\<rparr>,
      \<lparr>box_x = 10, box_y = 20, width = 100, height = 90\<rparr>,
      \<lparr>box_x = 200, box_y = 20, width = 120, height = 60\<rparr>]"
  let ?out = "labeled_boxes (\<lambda>r. ()) ?its three_region_image ?final"
  have h1: "2 \<le> length ?argv" by simp
  have h2: "three_region_imread (?argv ! 1) = Some three_region_image"
    by (simp add: three_region_imread_def)
  have h3: "all_boxes three_region_image = Inr ?pool" by (rule all_boxes_three_region)
  have h4: "final_boxes (shape three_region_image) ?pool = Inr ?final"
    by (rule final_boxes_three_region)
  have h5: "(1::nat) < length ?final" by simp
  have h6: "?its 1 (crop three_region_image (?final ! 1)) = Inl (Exception ''TesseractError'')"
    by simp
  have same: "\<forall>j. j \<noteq> (1::nat) \<longrightarrow> ?its' j = ?its j" by auto
  note T = text_failure_is_local[where i = 1 and final = ?final and its = ?its
      and img = three_region_image and e = "Exception ''TesseractError''"
      and gcf = "\<lambda>r. ()" and argv = ?argv and imread = three_region_imread
      and pool = ?pool and json_error = ?json and imwrite = ?imwrite, OF h5 h6]
  note rest = T[THEN conjunct2, THEN conjunct2, THEN conjunct2, THEN conjunct2,
      THEN conjunct2, THEN conjunct2, THEN conjunct2, THEN conjunct2]
  have hyps: "2 \<le> length ?argv \<and> three_region_imread (?argv ! 1) = Some three_region_image \<and>
      all_boxes three_region_image = Inr ?pool \<and>
      final_boxes (shape three_region_image) ?pool = Inr ?final"
    using h1 h2 h3 h4 by (intro conjI)
  note at_main = rest[THEN conjunct2, THEN mp, OF hyps, THEN conjunct2, THEN spec, THEN mp]
  have lib: "?json ?out = None \<and>
      ?imwrite (output_path (?argv ! 1)) (draw_loop 0 ?final []) = Inr True"
    by (intro conjI refl)
  have run: "main three_region_imread (\<lambda>r. ()) ?its ?json ?imwrite ?argv =
      \<lparr>stdout = [?out], exit_status = 0, uncaught = None,
       written = (if True then [(output_path (?argv ! 1), draw_loop 0 ?final [])] else [])\<rparr>"
    by (rule at_main[OF lib])
  have iso: "\<forall>j < length ?final. j \<noteq> 1 \<longrightarrow>
      labeled_boxes (\<lambda>r. ()) ?its' three_region_image ?final ! j = ?out ! j"
    by (rule rest[THEN conjunct1, THEN spec, THEN mp, OF same, THEN conjunct2])
  have out: "?out =
      [\<lparr>box_x = 10, box_y = 200, width = 300, height = 100, label = ''UI1'',
           color_fingerprint = (), box_text = [79, 75]\<rparr>,
          \<lparr>box_x = 10, box_y = 20, width = 100, height = 90, label = ''UI2'',
           color_fingerprint = (), box_text = []\<rparr>,
          \<lparr>box_x = 200, box_y = 20, width = 120, height = 60, label = ''UI3'',
           color_fingerprint = (), box_text = [79, 75]\<rparr>]"
    by (simp add: labeled_boxes_def label_box_def Let_def extract_text_from_roi_def
        strip_def isspace_def str_nat.simps digit_char_def)
  have out': "labeled_boxes (\<lambda>r. ()) ?its' three_region_image ?final =
     [\<lparr>box_x = 10, box_y = 200, width = 300, height = 100, label = ''UI1'',
       color_fingerprint = (), box_text = [79, 75]\<rparr>,
      \<lparr>box_x = 10, box_y = 20, width = 100, height = 90, label = ''UI2'',
       color_fingerprint = (), box_text = [79, 75]\<rparr>,
      \<lparr>box_x = 200, box_y = 20, width = 120, height = 60, label = ''UI3'',
       color_fingerprint = (), box_text = [79, 75]\<rparr>]"
    by (simp add: labeled_boxes_def label_box_def Let_def extract_text_from_roi_def
        strip_def isspace_def str_nat.simps digit_char_def)
  have drawn: "(if True then [(output_path (?argv ! 1), draw_loop 0 ?final [])] else []) =
        [(''shot_annotated.png'',
          [(\<lparr>box_x = 10, box_y = 200, width = 300, height = 100\<rparr>, ''UI1'', (10, 190),
            (0, 255, 0)),
           (\<lparr>box_x = 10, box_y = 20, width = 100, height = 90\<rparr>, ''UI2'', (10, 10),
            (255, 0, 0)),
           (\<lparr>box_x = 200, box_y = 20, width = 120, height = 60\<rparr>, ''UI3'', (200, 10),
            (0, 0, 255))])]"
    by (simp add: output_path_def str_replace_def colors_def str_nat.simps digit_char_def)
  show ?thesis
    unfolding run out out' drawn by simp
qed

subsection \<open>Claim C4: unusable input\<close>

text \<open>
  Claim C4. With no image path among the arguments the script prints the empty list and
  exits with status 0. With a path whose image cannot be read or decoded it prints the
  empty list and exits with status 1. In both cases nothing else is printed and no
  image is written.
\<close>

theorem main_unusable_input:
  "(length argv < 2 \<longrightarrow>
      main imread gcf its json_error imwrite argv =
        \<lparr>stdout = [[]], exit_status = 0, uncaught = None, written = []\<rparr>) \<and>
   (2 \<le> length argv \<and> imread (argv ! 1) = None \<longrightarrow>
      main imread gcf its json_error imwrite argv =
        \<lparr>stdout = [[]], exit_status = 1, uncaught = None, written = []\<rparr>)"
  by (simp add: main_def Let_def)

theorem main_unusable_input_witness:
  "main sample_imread (\<lambda>r. ()) (\<lambda>i r. Inr []) (\<lambda>l. None) (\<lambda>p d. Inr True) [''detect_ui.py''] =
     \<lparr>stdout = [[]], exit_status = 0, uncaught = None, written = []\<rparr> \<and>
   main sample_imread (\<lambda>r. ()) (\<lambda>i r. Inr []) (\<lambda>l. None) (\<lambda>p d. Inr True)
       [''detect_ui.py'', ''missing.png''] =
     \<lparr>stdout = [[]], exit_status = 1, uncaught = None, written = []\<rparr>"
proof -
  have a: "length [''detect_ui.py''] < 2" by simp
  have b: "2 \<le> length [''detect_ui.py'', ''missing.png''] \<and>
           sample_imread ([''detect_ui.py'', ''missing.png''] ! 1) = None"
    by (simp add: sample_imread_def)
  show ?thesis
    using main_unusable_input[where argv = "[''detect_ui.py'']" and imread = sample_imread
        and gcf = "\<lambda>r. ()" and its = "\<lambda>i r. Inr []" and json_error = "\<lambda>l. None"
        and imwrite = "\<lambda>p d. Inr True"] a
      main_unusable_input[where argv = "[''detect_ui.py'', ''missing.png'']"
        and imread = sample_imread and gcf = "\<lambda>r. ()" and its = "\<lambda>i r. Inr []"
        and json_error = "\<lambda>l. None" and imwrite = "\<lambda>p d. Inr True"] b
    by blast
qed

subsection \<open>Claim C7: the path of the annotated image\<close>

text \<open>
  Claim C7. The claim is that the output path is the input path with its \<open>.png\<close>
  suffix replaced by \<open>_annotated.png\<close>, in the same directory. \<open>str.replace\<close> replaces
  every occurrence: for the input path \<open>/tmp/run.png/screen.png\<close> the script computes
  \<open>/tmp/run_annotated.png/screen_annotated.png\<close>, a file of another directory, and not
  \<open>/tmp/run.png/screen_annotated.png\<close>.
\<close>

theorem output_path_replaces_every_occurrence:
  "output_path ''/tmp/run.png/screen.png'' = ''/tmp/run_annotated.png/screen_annotated.png'' \<and>
   output_path ''/tmp/run.png/screen.png'' \<noteq> ''/tmp/run.png/screen_annotated.png''"
  by (simp add: output_path_def str_replace_def)

end
